theory Spec2Isabelle
  imports Main "HOL-Library.AList"
begin

section \<open>JavaScript values\<close>

text \<open>
  The two servers (\<^verbatim>\<open>src/TemplateEdit/server-editor.js\<close> and \<^verbatim>\<open>src/unnamed/part_000\<close>)
  handle values that come out of \<^verbatim>\<open>JSON.parse\<close>: the request body and the content of
  \<^verbatim>\<open>projects.json\<close>. They are modelled by the datatype \<open>json\<close>; JavaScript's
  \<^verbatim>\<open>undefined\<close> (a property that is not there) is \<open>None\<close> of \<open>json option\<close>.

  A string is a list of UTF-16 code units in JavaScript. The model uses \<open>string\<close>, whose
  characters are the code units below 256 (Latin-1); code units above are outside the model.

  A number is observed by the handlers in two ways only: its truthiness and its decimal
  rendering (\<^verbatim>\<open>String(n)\<close>, which is also what \<^verbatim>\<open>JSON.stringify\<close> writes). \<open>JNum\<close> therefore
  carries that rendering; the number zero is \<open>JNum ''0''\<close>. The numbers of the model are the
  finite ones: a literal beyond the range of a double is read as \<^verbatim>\<open>Infinity\<close>, which
  \<^verbatim>\<open>JSON.stringify\<close> writes as \<^verbatim>\<open>null\<close>, and is outside the model.

  An object is the list of its own properties in insertion order, each key once.
\<close>

datatype json =
    JNull
  | JBool bool
  | JNum string
  | JStr string
  | JArr "json list"
  | JObj "(string \<times> json) list"

text \<open>
  \<open>InvalidInput msg\<close> is the answer \<^verbatim>\<open>res.status(400).json({ error: msg })\<close>.
  \<open>TypeError\<close> is the exception JavaScript throws when a property of \<^verbatim>\<open>null\<close> is read or
  when something that is not a function is called; no handler catches it, so the request
  ends there (Express answers 500).
\<close>

datatype error = InvalidInput string | TypeError

fun truthy :: "json \<Rightarrow> bool" where
  "truthy JNull = False"
| "truthy (JBool b) = b"
| "truthy (JNum n) = (n \<noteq> ''0'')"
| "truthy (JStr s) = (s \<noteq> [])"
| "truthy (JArr xs) = True"
| "truthy (JObj kvs) = True"

text \<open>\<^verbatim>\<open>v || d\<close>\<close>

definition js_or :: "json option \<Rightarrow> json \<Rightarrow> json" where
  "js_or v d = (case v of None \<Rightarrow> d | Some j \<Rightarrow> if truthy j then j else d)"

text \<open>
  \<^verbatim>\<open>v.k\<close> for one of the keys the handlers read (slug, title, category, dataCategory,
  description, tags, image): none of them is inherited from a prototype, so only an object
  can have it. Reading a property of \<^verbatim>\<open>null\<close> throws.
\<close>

definition own_prop :: "json \<Rightarrow> string \<Rightarrow> json option" where
  "own_prop v k = (case v of JObj kvs \<Rightarrow> map_of kvs k | _ \<Rightarrow> None)"

definition read_prop :: "json \<Rightarrow> string \<Rightarrow> error + json option" where
  "read_prop v k = (case v of JNull \<Rightarrow> Inl TypeError | _ \<Rightarrow> Inr (own_prop v k))"

subsection \<open>Characters\<close>

definition upper_letters :: string where
  "upper_letters = ''ABCDEFGHIJKLMNOPQRSTUVWXYZ''"

definition lower_letters :: string where
  "lower_letters = ''abcdefghijklmnopqrstuvwxyz''"

definition digits :: string where
  "digits = ''0123456789''"

text \<open>The capital letters of Latin-1 (U+00C0 to U+00DE without the sign U+00D7) and their small forms.\<close>

definition upper_latin1 :: string where
  "upper_latin1 =
     [CHR 0xC0, CHR 0xC1, CHR 0xC2, CHR 0xC3, CHR 0xC4, CHR 0xC5, CHR 0xC6, CHR 0xC7,
      CHR 0xC8, CHR 0xC9, CHR 0xCA, CHR 0xCB, CHR 0xCC, CHR 0xCD, CHR 0xCE, CHR 0xCF,
      CHR 0xD0, CHR 0xD1, CHR 0xD2, CHR 0xD3, CHR 0xD4, CHR 0xD5, CHR 0xD6,
      CHR 0xD8, CHR 0xD9, CHR 0xDA, CHR 0xDB, CHR 0xDC, CHR 0xDD, CHR 0xDE]"

definition lower_latin1 :: string where
  "lower_latin1 =
     [CHR 0xE0, CHR 0xE1, CHR 0xE2, CHR 0xE3, CHR 0xE4, CHR 0xE5, CHR 0xE6, CHR 0xE7,
      CHR 0xE8, CHR 0xE9, CHR 0xEA, CHR 0xEB, CHR 0xEC, CHR 0xED, CHR 0xEE, CHR 0xEF,
      CHR 0xF0, CHR 0xF1, CHR 0xF2, CHR 0xF3, CHR 0xF4, CHR 0xF5, CHR 0xF6,
      CHR 0xF8, CHR 0xF9, CHR 0xFA, CHR 0xFB, CHR 0xFC, CHR 0xFD, CHR 0xFE]"

definition translate :: "string \<Rightarrow> string \<Rightarrow> char \<Rightarrow> char" where
  "translate from to c = (case map_of (zip from to) c of Some d \<Rightarrow> d | None \<Rightarrow> c)"

text \<open>\<^verbatim>\<open>s.toLowerCase()\<close>\<close>

definition toLowerCase :: "string \<Rightarrow> string" where
  "toLowerCase s = map (translate (upper_letters @ upper_latin1) (lower_letters @ lower_latin1)) s"

text \<open>
  The \<^verbatim>\<open>i\<close> flag of a regular expression (without the \<^verbatim>\<open>u\<close> flag) compares canonical
  forms; for an ASCII pattern character \<open>c\<close> only \<open>c\<close> and its other ASCII case match.
\<close>

definition ascii_lower :: "char \<Rightarrow> char" where
  "ascii_lower c = translate upper_letters lower_letters c"

definition ascii_upper :: "char \<Rightarrow> char" where
  "ascii_upper c = translate lower_letters upper_letters c"

definition ci :: "char \<Rightarrow> char \<Rightarrow> bool" where
  "ci c x = (ascii_lower x = ascii_lower c)"

text \<open>\<^verbatim>\<open>\w\<close>\<close>

definition word_char :: "char \<Rightarrow> bool" where
  "word_char c = (c \<in> set (lower_letters @ upper_letters @ digits @ ''_''))"

text \<open>\<^verbatim>\<open>\s\<close>, and what \<^verbatim>\<open>trim()\<close> removes: tab, line feed, vertical tab, form feed, carriage return, space, no-break space.\<close>

definition space_char :: "char \<Rightarrow> bool" where
  "space_char c = (c \<in> set [CHR 0x09, CHR 0x0A, CHR 0x0B, CHR 0x0C, CHR 0x0D, CHR 0x20, CHR 0xA0])"

definition trim :: "string \<Rightarrow> string" where
  "trim s = rev (dropWhile space_char (rev (dropWhile space_char s)))"

text \<open>\<^verbatim>\<open>[a-z0-9-]\<close> under the \<^verbatim>\<open>i\<close> flag.\<close>

definition slug_char :: "char \<Rightarrow> bool" where
  "slug_char c = (c \<in> set (lower_letters @ upper_letters @ digits @ ''-''))"

text \<open>\<^verbatim>\<open>[a-zA-Z0-9._-]\<close>\<close>

definition upload_char :: "char \<Rightarrow> bool" where
  "upload_char c = (c \<in> set (lower_letters @ upper_letters @ digits @ ''._-''))"

text \<open>The decimal rendering of a length in a template string.\<close>

fun show_nat :: "nat \<Rightarrow> string" where
  "show_nat n = (if n < 10 then [digits ! n] else show_nat (n div 10) @ [digits ! (n mod 10)])"

declare show_nat.simps [simp del]

subsection \<open>Conversion to string\<close>

fun join_comma :: "string list \<Rightarrow> string" where
  "join_comma [] = []"
| "join_comma [x] = x"
| "join_comma (x # y # ys) = x @ '','' @ join_comma (y # ys)"

fun mapE :: "('a \<Rightarrow> error + 'b) \<Rightarrow> 'a list \<Rightarrow> error + 'b list" where
  "mapE f [] = Inr []"
| "mapE f (x # xs) =
     (case f x of
        Inl e \<Rightarrow> Inl e
      | Inr y \<Rightarrow> (case mapE f xs of Inl e \<Rightarrow> Inl e | Inr ys \<Rightarrow> Inr (y # ys)))"

text \<open>
  \<^verbatim>\<open>String(v)\<close>. An array is the join of its elements with commas, \<^verbatim>\<open>null\<close> elements
  giving the empty string. An object is \<^verbatim>\<open>[object Object]\<close>, unless it has an own property
  \<^verbatim>\<open>toString\<close>: that is a JSON value, not a function, and the conversion throws.
\<close>

fun to_string :: "json \<Rightarrow> error + string"
  and to_strings :: "json list \<Rightarrow> error + string list" where
  "to_string JNull = Inr ''null''"
| "to_string (JBool b) = Inr (if b then ''true'' else ''false'')"
| "to_string (JNum n) = Inr n"
| "to_string (JStr s) = Inr s"
| "to_string (JArr xs) =
     (case to_strings xs of Inl e \<Rightarrow> Inl e | Inr ss \<Rightarrow> Inr (join_comma ss))"
| "to_string (JObj kvs) =
     (if map_of kvs ''toString'' = None then Inr ''[object Object]'' else Inl TypeError)"
| "to_strings [] = Inr []"
| "to_strings (x # xs) =
     (case (if x = JNull then Inr [] else to_string x) of
        Inl e \<Rightarrow> Inl e
      | Inr s \<Rightarrow> (case to_strings xs of Inl e \<Rightarrow> Inl e | Inr ss \<Rightarrow> Inr (s # ss)))"

section \<open>The files\<close>

text \<open>
  \<^verbatim>\<open>projects.json\<close> as the handlers see it: absent (\<^verbatim>\<open>fs.existsSync\<close> is false), present
  but not readable as JSON (\<^verbatim>\<open>fs.readFileSync\<close> or \<^verbatim>\<open>JSON.parse\<close> throws inside the
  \<^verbatim>\<open>try\<close>), or present with the value \<^verbatim>\<open>JSON.parse\<close> returns. A handler writes
  \<^verbatim>\<open>JSON.stringify(projects, null, 2)\<close>; reading that text back gives \<open>projects\<close> again, so
  the write is modelled by \<open>Parsed (JArr projects)\<close>.
\<close>

datatype index_file = NoFile | Unparsable | Parsed json

text \<open>
  \<open>pages\<close> is the listing of \<^verbatim>\<open>PROJECTS_DIR\<close> in the order \<^verbatim>\<open>fs.readdirSync\<close> returns it,
  without \<^verbatim>\<open>projects.json\<close>: each name with its text, or \<open>None\<close> when reading it throws.
  \<open>images\<close> is \<^verbatim>\<open>PUBLIC_IMAGES\<close>. File names are compared exactly, and a write is taken to
  succeed: it replaces the entry of that name or adds one at the end of the listing.
\<close>

record files =
  index :: index_file
  pages :: "(string \<times> string option) list"
  images :: "(string \<times> string) list"

text \<open>
  \<^verbatim>\<open>
  let projects = [];
  if (fs.existsSync(PROJECTS_JSON)) {
    try { projects = JSON.parse(fs.readFileSync(PROJECTS_JSON, 'utf8')); }
    catch (e) { projects = []; }
  }
  if (!Array.isArray(projects)) projects = [];
  \<close>
\<close>

definition load_projects :: "index_file \<Rightarrow> json list" where
  "load_projects f =
     (let projects = (case f of NoFile \<Rightarrow> JArr [] | Unparsable \<Rightarrow> JArr [] | Parsed v \<Rightarrow> v)
      in case projects of JArr ps \<Rightarrow> ps | _ \<Rightarrow> [])"

section \<open>Saving a project: \<^verbatim>\<open>POST /api/save\<close>\<close>

text \<open>The body \<^verbatim>\<open>express.json()\<close> hands over: \<open>slug\<close> and \<open>meta\<close> are any JSON value or absent, \<open>html\<close> is a string or absent.\<close>

record body =
  slug :: "json option"
  html :: "string option"
  meta :: "json option"

text \<open>\<^verbatim>\<open>s.replace(/[^a-z0-9-]/gi, '-')\<close>\<close>

definition sanitize :: "string \<Rightarrow> string" where
  "sanitize s = map (\<lambda>c. if slug_char c then c else CHR ''-'') s"

text \<open>\<^verbatim>\<open>(req.body.slug || '').replace(/[^a-z0-9-]/gi, '-')\<close>: only a string has \<^verbatim>\<open>replace\<close>.\<close>

definition sanitized_slug :: "json option \<Rightarrow> error + string" where
  "sanitized_slug v =
     (case js_or v (JStr []) of JStr s \<Rightarrow> Inr (sanitize s) | _ \<Rightarrow> Inl TypeError)"

text \<open>\<^verbatim>\<open>Array.isArray(v) ? v : (v ? [v] : [])\<close>\<close>

definition as_list :: "json option \<Rightarrow> json" where
  "as_list v =
     (case v of
        None \<Rightarrow> JArr []
      | Some (JArr xs) \<Rightarrow> JArr xs
      | Some j \<Rightarrow> if truthy j then JArr [j] else JArr [])"

text \<open>The object \<^verbatim>\<open>entry\<close> of the save handler, lines 72 to 80.\<close>

definition save_entry :: "string \<Rightarrow> json \<Rightarrow> json" where
  "save_entry s m =
     JObj [(''slug'', JStr s),
           (''title'', js_or (own_prop m ''title'') (JStr s)),
           (''category'', js_or (own_prop m ''category'') (JStr [])),
           (''dataCategory'', as_list (own_prop m ''dataCategory'')),
           (''description'', js_or (own_prop m ''description'') (JStr [])),
           (''tags'', as_list (own_prop m ''tags'')),
           (''image'', js_or (own_prop m ''image'') (JStr []))]"

text \<open>\<^verbatim>\<open>(p.slug || '').toLowerCase()\<close>: only a string has \<^verbatim>\<open>toLowerCase\<close>.\<close>

definition slug_lower :: "json \<Rightarrow> error + string" where
  "slug_lower p =
     (case read_prop p ''slug'' of
        Inl e \<Rightarrow> Inl e
      | Inr v \<Rightarrow> (case js_or v (JStr []) of JStr s \<Rightarrow> Inr (toLowerCase s) | _ \<Rightarrow> Inl TypeError))"

text \<open>
  \<^verbatim>\<open>projects.findIndex((p) => (p.slug || '').toLowerCase() === slug.toLowerCase())\<close>:
  \<open>None\<close> is the result -1. The search stops at the first match, or where the callback throws.
\<close>

fun findIndex :: "string \<Rightarrow> json list \<Rightarrow> error + nat option" where
  "findIndex s [] = Inr None"
| "findIndex s (p # ps) =
     (case slug_lower p of
        Inl e \<Rightarrow> Inl e
      | Inr k \<Rightarrow>
          if k = toLowerCase s then Inr (Some 0)
          else (case findIndex s ps of
                  Inl e \<Rightarrow> Inl e
                | Inr None \<Rightarrow> Inr None
                | Inr (Some i) \<Rightarrow> Inr (Some (Suc i))))"

text \<open>\<^verbatim>\<open>if (idx >= 0) projects[idx] = entry; else projects.push(entry);\<close>\<close>

definition put_entry :: "nat option \<Rightarrow> json \<Rightarrow> json list \<Rightarrow> json list" where
  "put_entry idx entry projects =
     (case idx of Some i \<Rightarrow> projects[i := entry] | None \<Rightarrow> projects @ [entry])"

definition write_page :: "string \<Rightarrow> string \<Rightarrow> files \<Rightarrow> files" where
  "write_page name text st = st\<lparr>pages := AList.update name (Some text) (pages st)\<rparr>"

definition opt_string :: "string option \<Rightarrow> string" where
  "opt_string v = (case v of None \<Rightarrow> [] | Some s \<Rightarrow> s)"

text \<open>
  The handler of \<^verbatim>\<open>src/TemplateEdit/server-editor.js\<close>, lines 53 to 89. The result is the
  answer (the \<^verbatim>\<open>path\<close> of the JSON reply, or the error) and the files afterwards: the page
  is written before the index is read, so it stays written when \<^verbatim>\<open>findIndex\<close> throws.
\<close>

definition save :: "body \<Rightarrow> files \<Rightarrow> (error + string) \<times> files" where
  "save b st =
     (case sanitized_slug (slug b) of
        Inl e \<Rightarrow> (Inl e, st)
      | Inr s \<Rightarrow>
          if s = [] then (Inl (InvalidInput ''Missing slug''), st)
          else
            let st1 = write_page (s @ ''.html'') (opt_string (html b)) st;
                m = js_or (meta b) (JObj []);
                projects = load_projects (index st1);
                entry = save_entry s m
            in (case findIndex s projects of
                  Inl e \<Rightarrow> (Inl e, st1)
                | Inr idx \<Rightarrow>
                    (Inr (''projects/'' @ s @ ''.html''),
                     st1\<lparr>index := Parsed (JArr (put_entry idx entry projects))\<rparr>)))"

text \<open>The handler of \<^verbatim>\<open>src/unnamed/part_000\<close>, lines 54 to 90.\<close>

definition save_nested :: "body \<Rightarrow> files \<Rightarrow> (error + string) \<times> files" where
  "save_nested b st =
     (case sanitized_slug (slug b) of
        Inl e \<Rightarrow> (Inl e, st)
      | Inr s \<Rightarrow>
          if s = [] then (Inl (InvalidInput ''Missing slug''), st)
          else
            let st1 = write_page (s @ ''.html'') (opt_string (html b)) st;
                m = js_or (meta b) (JObj []);
                projects = load_projects (index st1);
                entry = save_entry s m
            in (case findIndex s projects of
                  Inl e \<Rightarrow> (Inl e, st1)
                | Inr idx \<Rightarrow>
                    (Inr (''TemplateEdit/projects/'' @ s @ ''.html''),
                     st1\<lparr>index := Parsed (JArr (put_entry idx entry projects))\<rparr>)))"

section \<open>Uploading an image: \<^verbatim>\<open>POST /api/upload\<close>\<close>

text \<open>
  \<^verbatim>\<open>path.basename(p)\<close> on POSIX: the slashes at the end are dropped, and what follows the
  last slash that remains is returned.
\<close>

definition basename :: "string \<Rightarrow> string" where
  "basename p = rev (takeWhile (\<lambda>c. c \<noteq> CHR ''/'') (dropWhile (\<lambda>c. c = CHR ''/'') (rev p)))"

text \<open>The file multer found in the field \<^verbatim>\<open>image\<close>.\<close>

record upload_file =
  originalname :: string
  content :: string

text \<open>
  The \<^verbatim>\<open>filename\<close> callback of the disk storage:
  \<^verbatim>\<open>path.basename(file.originalname || 'image').replace(/[^a-zA-Z0-9._-]/g, '_')\<close>
\<close>

definition safe_name :: "upload_file \<Rightarrow> string" where
  "safe_name f =
     map (\<lambda>c. if upload_char c then c else CHR ''_'')
       (basename (if originalname f = [] then ''image'' else originalname f))"

text \<open>
  The handler, the same lines in both files. Multer has stored the file under \<open>safe_name\<close> in
  \<^verbatim>\<open>PUBLIC_IMAGES\<close> before the handler runs; \<^verbatim>\<open>req.file\<close> is absent when the request
  carries no file in the field.
\<close>

definition upload :: "upload_file option \<Rightarrow> files \<Rightarrow> (error + string) \<times> files" where
  "upload file st =
     (case file of
        None \<Rightarrow> (Inl (InvalidInput ''No image file''), st)
      | Some f \<Rightarrow>
          (Inr (''public/images/'' @ safe_name f),
           st\<lparr>images := AList.update (safe_name f) (content f) (images st)\<rparr>))"

definition upload_nested :: "upload_file option \<Rightarrow> files \<Rightarrow> (error + string) \<times> files" where
  "upload_nested file st =
     (case file of
        None \<Rightarrow> (Inl (InvalidInput ''No image file''), st)
      | Some f \<Rightarrow>
          (Inr (''public/images/'' @ safe_name f),
           st\<lparr>images := AList.update (safe_name f) (content f) (images st)\<rparr>))"

section \<open>Regular expressions\<close>

text \<open>
  The patterns of \<^verbatim>\<open>parseMetaFromHtml\<close> are sequences of character classes, each taken
  once, or repeated greedily (\<^verbatim>\<open>*\<close>, \<^verbatim>\<open>+\<close>), with at most one group \<^verbatim>\<open>(...+)\<close> and the
  anchor \<^verbatim>\<open>$\<close>. \<open>match_here\<close> is the backtracking matcher at one position: a repetition
  first takes all the characters it can and gives them back one by one while the rest of
  the pattern fails. Its result is the text of the group and what follows the match.
\<close>

datatype item =
    One "char \<Rightarrow> bool"
  | Star "char \<Rightarrow> bool"
  | Plus "char \<Rightarrow> bool"
  | Group "char \<Rightarrow> bool"
  | End

fun backtrack :: "(string \<Rightarrow> 'a option) \<Rightarrow> string \<Rightarrow> nat \<Rightarrow> nat \<Rightarrow> (nat \<times> 'a) option" where
  "backtrack k s lo 0 = (if 0 < lo then None else map_option (Pair 0) (k s))"
| "backtrack k s lo (Suc n) =
     (if Suc n < lo then None
      else (case k (drop (Suc n) s) of
              Some r \<Rightarrow> Some (Suc n, r)
            | None \<Rightarrow> backtrack k s lo n))"

fun match_here :: "item list \<Rightarrow> string \<Rightarrow> (string \<times> string) option" where
  "match_here [] s = Some ([], s)"
| "match_here (One c # r) s =
     (case s of [] \<Rightarrow> None | x # xs \<Rightarrow> if c x then match_here r xs else None)"
| "match_here (Star c # r) s =
     map_option snd (backtrack (match_here r) s 0 (length (takeWhile c s)))"
| "match_here (Plus c # r) s =
     map_option snd (backtrack (match_here r) s 1 (length (takeWhile c s)))"
| "match_here (Group c # r) s =
     (case backtrack (match_here r) s 1 (length (takeWhile c s)) of
        None \<Rightarrow> None
      | Some (n, (g, rest)) \<Rightarrow> Some (take n s, rest))"
| "match_here (End # r) s = (if s = [] then match_here r s else None)"

text \<open>
  The first match in a string: the positions are tried from left to right, the end of the
  string included. The result is what precedes the match, the group, and what follows.
\<close>

fun search :: "item list \<Rightarrow> string \<Rightarrow> string \<Rightarrow> (string \<times> string \<times> string) option" where
  "search re pre [] =
     (case match_here re [] of Some (g, rest) \<Rightarrow> Some (pre, g, rest) | None \<Rightarrow> None)"
| "search re pre (x # xs) =
     (case match_here re (x # xs) of
        Some (g, rest) \<Rightarrow> Some (pre, g, rest)
      | None \<Rightarrow> search re (pre @ [x]) xs)"

text \<open>\<^verbatim>\<open>s.match(re)\<close> for a pattern without the \<^verbatim>\<open>g\<close> flag, read at index 1.\<close>

definition match_group :: "item list \<Rightarrow> string \<Rightarrow> string option" where
  "match_group re s = map_option (\<lambda>(pre, g, rest). g) (search re [] s)"

text \<open>\<^verbatim>\<open>s.replace(re, '')\<close> for a pattern without the \<^verbatim>\<open>g\<close> flag.\<close>

definition remove_first :: "item list \<Rightarrow> string \<Rightarrow> string" where
  "remove_first re s = (case search re [] s of None \<Rightarrow> s | Some (pre, g, rest) \<Rightarrow> pre @ rest)"

definition lit :: "string \<Rightarrow> item list" where
  "lit s = map (\<lambda>c. One (ci c)) s"

definition is_not :: "string \<Rightarrow> char \<Rightarrow> bool" where
  "is_not cs c = (c \<notin> set cs)"

definition is_in :: "string \<Rightarrow> char \<Rightarrow> bool" where
  "is_in cs c = (c \<in> set cs)"

text \<open>\<^verbatim>\<open>/<title[^>]*>([^<]+)<\/title>/i\<close>\<close>

definition title_re :: "item list" where
  "title_re = lit ''<title'' @ [Star (is_not ''>'')] @ lit ''>'' @ [Group (is_not ''<'')] @ lit ''</title>''"

text \<open>\<^verbatim>\<open>/\s*\|\s*Sharva Paralkar\s*$/i\<close>\<close>

definition owner_re :: "item list" where
  "owner_re = [Star space_char] @ lit ''|'' @ [Star space_char] @ lit ''Sharva Paralkar'' @ [Star space_char, End]"

text \<open>\<^verbatim>\<open>/<h1[^>]*>([^<]+)<\/h1>/i\<close>\<close>

definition h1_re :: "item list" where
  "h1_re = lit ''<h1'' @ [Star (is_not ''>'')] @ lit ''>'' @ [Group (is_not ''<'')] @ lit ''</h1>''"

text \<open>\<^verbatim>\<open>/<img[^>]+src=["']([^"']+)["']/i\<close>\<close>

definition img_re :: "item list" where
  "img_re = lit ''<img'' @ [Plus (is_not ''>'')] @ lit ''src='' @ [One (is_in [CHR 0x22, CHR 0x27]),
     Group (is_not [CHR 0x22, CHR 0x27]), One (is_in [CHR 0x22, CHR 0x27])]"

section \<open>Reading a page's metadata\<close>

record page_meta =
  title :: string
  image :: string

text \<open>\<^verbatim>\<open>parseMetaFromHtml\<close>, \<^verbatim>\<open>src/unnamed/part_000\<close> lines 93 to 104; the assignments to \<^verbatim>\<open>meta\<close> in their order.\<close>

definition parseMetaFromHtml :: "string \<Rightarrow> page_meta" where
  "parseMetaFromHtml h =
     (let meta0 = \<lparr>title = [], image = []\<rparr>;
          titleMatch = match_group title_re h;
          meta1 = (case titleMatch of
                     Some g \<Rightarrow> meta0\<lparr>title := trim (remove_first owner_re g)\<rparr>
                   | None \<Rightarrow> meta0);
          h1Match = match_group h1_re h;
          meta2 = (case h1Match of
                     Some g \<Rightarrow> if title meta1 = [] then meta1\<lparr>title := trim g\<rparr> else meta1
                   | None \<Rightarrow> meta1);
          imgMatch = match_group img_re h;
          meta3 = (case imgMatch of
                     Some g \<Rightarrow> meta2\<lparr>image := trim g\<rparr>
                   | None \<Rightarrow> meta2)
      in meta3)"

text \<open>
  \<^verbatim>\<open>s.replace(/\b\w/g, (c) => c.toUpperCase())\<close>: a word character is replaced when no
  word character precedes it. \<open>prev\<close> tells whether the preceding character is one.
\<close>

fun capitalize :: "bool \<Rightarrow> string \<Rightarrow> string" where
  "capitalize prev [] = []"
| "capitalize prev (c # cs) =
     (if word_char c \<and> \<not> prev then ascii_upper c else c) # capitalize (word_char c) cs"

text \<open>\<^verbatim>\<open>slug.replace(/-/g, ' ').replace(/\b\w/g, (c) => c.toUpperCase())\<close>\<close>

definition readable :: "string \<Rightarrow> string" where
  "readable s = capitalize False (map (\<lambda>c. if c = CHR ''-'' then CHR '' '' else c) s)"

text \<open>\<^verbatim>\<open>a || b\<close> on strings.\<close>

definition str_or :: "string \<Rightarrow> string \<Rightarrow> string" where
  "str_or a b = (if a = [] then b else a)"

text \<open>The object \<^verbatim>\<open>entry\<close> of the sync handler, lines 133 to 142.\<close>

definition sync_entry :: "string \<Rightarrow> string \<Rightarrow> json" where
  "sync_entry s h =
     (let parsed = parseMetaFromHtml h
      in JObj [(''slug'', JStr s),
               (''title'', JStr (str_or (title parsed) (readable s))),
               (''category'', JStr []),
               (''dataCategory'', JArr []),
               (''description'', JStr []),
               (''tags'', JArr []),
               (''image'', JStr (str_or (image parsed) []))])"

section \<open>Synchronising the index with the pages: \<^verbatim>\<open>GET /api/sync-projects\<close>\<close>

text \<open>\<^verbatim>\<open>f.endsWith(ext)\<close>\<close>

definition endsWith :: "string \<Rightarrow> string \<Rightarrow> bool" where
  "endsWith f ext = (length ext \<le> length f \<and> drop (length f - length ext) f = ext)"

text \<open>\<^verbatim>\<open>path.basename(f, ext)\<close> for the name of a directory entry, which has no separator in it.\<close>

definition basename_ext :: "string \<Rightarrow> string \<Rightarrow> string" where
  "basename_ext f ext = (if endsWith f ext then take (length f - length ext) f else f)"

text \<open>\<^verbatim>\<open>fs.readdirSync(PROJECTS_DIR).filter((f) => f.endsWith('.html'))\<close>\<close>

definition html_files :: "files \<Rightarrow> string list" where
  "html_files st = filter (\<lambda>f. endsWith f ''.html'') (map fst (pages st))"

text \<open>\<^verbatim>\<open>String(p.slug || '').toLowerCase()\<close>\<close>

definition slug_key :: "json \<Rightarrow> error + string" where
  "slug_key p =
     (case read_prop p ''slug'' of
        Inl e \<Rightarrow> Inl e
      | Inr v \<Rightarrow> (case to_string (js_or v (JStr [])) of
                   Inl e \<Rightarrow> Inl e
                 | Inr s \<Rightarrow> Inr (toLowerCase s)))"

text \<open>The text of a page, the empty string when reading it throws (lines 127 to 132).\<close>

definition read_page :: "files \<Rightarrow> string \<Rightarrow> string" where
  "read_page st f = (case map_of (pages st) f of Some (Some h) \<Rightarrow> h | _ \<Rightarrow> [])"

text \<open>
  The loop of lines 122 to 147 over \<^verbatim>\<open>files\<close>; its state is \<^verbatim>\<open>projects\<close>, \<^verbatim>\<open>bySlug\<close> and
  \<^verbatim>\<open>added\<close>.
\<close>

fun sync_loop :: "files \<Rightarrow> string list \<Rightarrow> json list \<times> (string \<rightharpoonup> json) \<times> string list
    \<Rightarrow> json list \<times> (string \<rightharpoonup> json) \<times> string list" where
  "sync_loop st [] acc = acc"
| "sync_loop st (file # rest) (projects, bySlug, added) =
     (let s = basename_ext file ''.html'';
          key = toLowerCase s
      in if bySlug key = None then
           (let h = read_page st file;
                entry = sync_entry s h
            in sync_loop st rest (projects @ [entry], bySlug(key \<mapsto> entry), added @ [s]))
         else sync_loop st rest (projects, bySlug, added))"

text \<open>\<^verbatim>\<open>projects.filter(f)\<close> with a callback that may throw.\<close>

fun filterE :: "('a \<Rightarrow> error + bool) \<Rightarrow> 'a list \<Rightarrow> error + 'a list" where
  "filterE f [] = Inr []"
| "filterE f (x # xs) =
     (case f x of
        Inl e \<Rightarrow> Inl e
      | Inr b \<Rightarrow> (case filterE f xs of
                   Inl e \<Rightarrow> Inl e
                 | Inr ys \<Rightarrow> Inr (if b then x # ys else ys)))"

text \<open>\<^verbatim>\<open>slugsFromFiles.has(String(p.slug || '').toLowerCase())\<close>\<close>

definition has_file :: "string set \<Rightarrow> json \<Rightarrow> error + bool" where
  "has_file slugsFromFiles p =
     (case slug_key p of Inl e \<Rightarrow> Inl e | Inr k \<Rightarrow> Inr (k \<in> slugsFromFiles))"

text \<open>\<^verbatim>\<open>new Map(pairs)\<close>: of two pairs with the same key the later one stays.\<close>

definition new_Map :: "(string \<times> json) list \<Rightarrow> (string \<rightharpoonup> json)" where
  "new_Map kvs = map_of (rev kvs)"

record sync_reply =
  projects :: "json list"
  added :: "string list"
  removed :: nat
  message :: string

text \<open>
  The handler, \<^verbatim>\<open>src/unnamed/part_000\<close> lines 106 to 162. Nothing is written before the
  last statement but one, so an exception leaves the files as they were.
\<close>

definition sync_projects :: "files \<Rightarrow> (error + sync_reply) \<times> files" where
  "sync_projects st =
     (let projects0 = load_projects (index st);
          files = html_files st;
          slugsFromFiles = set (map (\<lambda>f. toLowerCase (basename_ext f ''.html'')) files)
      in (case mapE slug_key projects0 of
            Inl e \<Rightarrow> (Inl e, st)
          | Inr keys \<Rightarrow>
              (let bySlug = new_Map (zip keys projects0);
                   (projects1, bySlug1, added1) = sync_loop st files (projects0, bySlug, []);
                   before0 = length projects1
               in (case filterE (has_file slugsFromFiles) projects1 of
                     Inl e \<Rightarrow> (Inl e, st)
                   | Inr projects2 \<Rightarrow>
                       (let removedCount = before0 - length projects2
                        in (Inr \<lparr>projects = projects2, added = added1, removed = removedCount,
                                 message = ''Synced: '' @ show_nat (length projects2)
                                   @ '' project(s). Added: '' @ show_nat (length added1)
                                   @ ''; removed from list: '' @ show_nat removedCount @ ''.''\<rparr>,
                            st\<lparr>index := Parsed (JArr projects2)\<rparr>))))))"

section \<open>The two applications\<close>

text \<open>
  The requests of the API and what the application answers. \<open>NoRoute\<close> is the answer of
  Express when no handler is registered for the request. The static files of the editor
  and the redirection of \<^verbatim>\<open>/\<close> are not modelled; no static file lies at the path of an
  API route.
\<close>

datatype request = Upload "upload_file option" | Save body | Sync

datatype reply = Url string | Path string | Synced sync_reply | Failed error | NoRoute

definition reply_of :: "('a \<Rightarrow> reply) \<Rightarrow> (error + 'a) \<times> files \<Rightarrow> reply \<times> files" where
  "reply_of ok r = (case fst r of Inl e \<Rightarrow> (Failed e, snd r) | Inr x \<Rightarrow> (ok x, snd r))"

text \<open>\<^verbatim>\<open>src/TemplateEdit/server-editor.js\<close>: \<^verbatim>\<open>/api/upload\<close> and \<^verbatim>\<open>/api/save\<close>.\<close>

definition app :: "request \<Rightarrow> files \<Rightarrow> reply \<times> files" where
  "app req st =
     (case req of
        Upload file \<Rightarrow> reply_of Url (upload file st)
      | Save b \<Rightarrow> reply_of Path (save b st)
      | Sync \<Rightarrow> (NoRoute, st))"

text \<open>\<^verbatim>\<open>src/unnamed/part_000\<close>: \<^verbatim>\<open>/api/upload\<close>, \<^verbatim>\<open>/api/save\<close> and \<^verbatim>\<open>/api/sync-projects\<close>.\<close>

definition app_nested :: "request \<Rightarrow> files \<Rightarrow> reply \<times> files" where
  "app_nested req st =
     (case req of
        Upload file \<Rightarrow> reply_of Url (upload_nested file st)
      | Save b \<Rightarrow> reply_of Path (save_nested b st)
      | Sync \<Rightarrow> reply_of Synced (sync_projects st))"

section \<open>Notions used in the properties\<close>

text \<open>The record that the lookup of the save handler finds for a slug in the index file.\<close>

definition find_record :: "string \<Rightarrow> files \<Rightarrow> json option" where
  "find_record s st =
     (let ps = load_projects (index st)
      in case findIndex s ps of Inr (Some i) \<Rightarrow> Some (ps ! i) | _ \<Rightarrow> None)"

text \<open>The request of the specification's first scenario, a projects directory without files, and the files after the request.\<close>

definition example_body :: body where
  "example_body = \<lparr>slug = Some (JStr ''My Project!''), html = Some ''<p>x</p>'',
     meta = Some (JObj [(''title'', JStr ''T'')])\<rparr>"

definition no_files :: files where
  "no_files = \<lparr>index = NoFile, pages = [], images = []\<rparr>"

definition example_saved :: files where
  "example_saved =
     \<lparr>index = Parsed (JArr [JObj [(''slug'', JStr ''My-Project-''), (''title'', JStr ''T''),
         (''category'', JStr []), (''dataCategory'', JArr []), (''description'', JStr []),
         (''tags'', JArr []), (''image'', JStr [])]]),
      pages = [(''My-Project-.html'', Some ''<p>x</p>'')], images = []\<rparr>"

text \<open>A request without a slug.\<close>

definition no_slug_body :: body where
  "no_slug_body = \<lparr>slug = None, html = Some ''<p>x</p>'', meta = None\<rparr>"





text \<open>The records of an index that the lookup of the save handler takes for a slug.\<close>

definition matching :: "string \<Rightarrow> json list \<Rightarrow> json list" where
  "matching s ps = filter (\<lambda>p. slug_lower p = Inr (toLowerCase s)) ps"

text \<open>An index with two records whose slugs differ in case only, and two requests for that slug.\<close>

definition twin_files :: files where
  "twin_files = \<lparr>index = Parsed (JArr [JObj [(''slug'', JStr ''a'')], JObj [(''slug'', JStr ''A'')]]),
     pages = [], images = []\<rparr>"

definition first_body :: body where
  "first_body = \<lparr>slug = Some (JStr ''a''), html = None, meta = None\<rparr>"

definition second_body :: body where
  "second_body = \<lparr>slug = Some (JStr ''A''), html = None, meta = Some (JObj [(''title'', JStr ''T'')])\<rparr>"

text \<open>The slugs of the records of an index as the sync handler compares them; a record whose slug it cannot read has none.\<close>

definition slugs_of :: "json list \<Rightarrow> string list" where
  "slugs_of ps = concat (map (\<lambda>p. case slug_key p of Inr k \<Rightarrow> [k] | Inl e \<Rightarrow> []) ps)"


text \<open>The key of a page in the sync handler, and the indexes from which it can read every slug.\<close>

definition file_key :: "string \<Rightarrow> string" where
  "file_key f = toLowerCase (basename_ext f ''.html'')"

definition keyed :: "json list \<Rightarrow> bool" where
  "keyed ps = (\<forall>p\<in>set ps. \<exists>k. slug_key p = Inr k)"

text \<open>The specification's second scenario: a page without a record and a record without a page; and the files after the synchronisation.\<close>

definition orphan_files :: files where
  "orphan_files =
     \<lparr>index = Parsed (JArr [JObj [(''slug'', JStr ''gone''), (''title'', JStr ''Gone'')]]),
      pages = [(''orphan.html'', Some ''<title>Orphan Page | Sharva Paralkar</title>'')],
      images = []\<rparr>"

definition orphan_synced :: files where
  "orphan_synced =
     \<lparr>index = Parsed (JArr [JObj [(''slug'', JStr ''orphan''), (''title'', JStr ''Orphan Page''),
         (''category'', JStr []), (''dataCategory'', JArr []), (''description'', JStr []),
         (''tags'', JArr []), (''image'', JStr [])]]),
      pages = [(''orphan.html'', Some ''<title>Orphan Page | Sharva Paralkar</title>'')],
      images = []\<rparr>"


text \<open>A \<^verbatim>\<open>projects.json\<close> that holds an object where the array should be.\<close>

definition object_index :: files where
  "object_index = \<lparr>index = Parsed (JObj [(''slug'', JStr ''orphan'')]),
     pages = [(''orphan.html'', Some ''<title>Orphan Page | Sharva Paralkar</title>'')],
     images = []\<rparr>"

text \<open>Two answers that are the same up to the directory in the path of a saved page, and two outcomes that are the same up to that.\<close>

fun same_reply :: "reply \<Rightarrow> reply \<Rightarrow> bool" where
  "same_reply (Path p) (Path q) = (q = ''TemplateEdit/'' @ p)"
| "same_reply a b = (a = b)"

definition same_up_to_layout :: "reply \<times> files \<Rightarrow> reply \<times> files \<Rightarrow> bool" where
  "same_up_to_layout x y = (same_reply (fst x) (fst y) \<and> snd x = snd y)"




section \<open>Properties of the save handler\<close>

lemma sanitized_slug_error: "sanitized_slug v = Inl e \<Longrightarrow> e = TypeError"
  by (auto simp: sanitized_slug_def split: json.splits)

lemma slug_lower_error: "slug_lower p = Inl e \<Longrightarrow> e = TypeError"
  by (auto simp: slug_lower_def read_prop_def split: json.splits sum.splits)

lemma findIndex_error: "findIndex s ps = Inl e \<Longrightarrow> e = TypeError"
  by (induction ps) (auto split: sum.splits if_splits option.splits dest: slug_lower_error)

lemma index_write_page [simp]: "index (write_page n t st) = index st"
  by (simp add: write_page_def)

lemma images_write_page [simp]: "images (write_page n t st) = images st"
  by (simp add: write_page_def)

lemma save_Inr:
  "save b st = (Inr r, st') \<longleftrightarrow>
     (\<exists>s idx. sanitized_slug (slug b) = Inr s \<and> s \<noteq> [] \<and>
        findIndex s (load_projects (index st)) = Inr idx \<and>
        r = ''projects/'' @ s @ ''.html'' \<and>
        st' = (write_page (s @ ''.html'') (opt_string (html b)) st)
                \<lparr>index := Parsed (JArr (put_entry idx (save_entry s (js_or (meta b) (JObj [])))
                   (load_projects (index st))))\<rparr>)"
  by (auto simp: save_def Let_def split: sum.splits)

lemma save_Inl:
  "save b st = (Inl e, st') \<longleftrightarrow>
     (sanitized_slug (slug b) = Inl e \<and> st' = st) \<or>
     (sanitized_slug (slug b) = Inr [] \<and> e = InvalidInput ''Missing slug'' \<and> st' = st) \<or>
     (\<exists>s. sanitized_slug (slug b) = Inr s \<and> s \<noteq> [] \<and>
        findIndex s (load_projects (index st)) = Inl e \<and>
        st' = write_page (s @ ''.html'') (opt_string (html b)) st)"
  by (auto simp: save_def Let_def split: sum.splits)

lemma sanitize_idem: "sanitize (sanitize s) = sanitize s"
  by (simp add: sanitize_def slug_char_def lower_letters_def upper_letters_def digits_def)

lemma slug_lower_save_entry: "slug_lower (save_entry s m) = Inr (toLowerCase s)"
  by (simp add: slug_lower_def save_entry_def read_prop_def own_prop_def js_or_def toLowerCase_def)

lemma findIndex_Some:
  "findIndex s ps = Inr (Some i) \<Longrightarrow>
     i < length ps \<and> slug_lower (ps ! i) = Inr (toLowerCase s) \<and>
     (\<forall>j<i. \<exists>k. slug_lower (ps ! j) = Inr k \<and> k \<noteq> toLowerCase s)"
proof (induction ps arbitrary: i)
  case Nil
  then show ?case by simp
next
  case (Cons p ps)
  show ?case
  proof (cases "slug_lower p")
    case (Inl e)
    with Cons.prems show ?thesis by simp
  next
    case (Inr k)
    show ?thesis
    proof (cases "k = toLowerCase s")
      case True
      with Inr Cons.prems show ?thesis by simp
    next
      case False
      with Inr Cons.prems obtain i' where i': "findIndex s ps = Inr (Some i')" "i = Suc i'"
        by (auto split: sum.splits option.splits)
      from Cons.IH[OF i'(1)] Inr False i'(2) show ?thesis
        by (auto simp: less_Suc_eq_0_disj)
    qed
  qed
qed

lemma findIndex_None:
  "findIndex s ps = Inr None \<Longrightarrow> \<forall>p\<in>set ps. \<exists>k. slug_lower p = Inr k \<and> k \<noteq> toLowerCase s"
  by (induction ps) (auto split: sum.splits option.splits if_splits)

lemma findIndex_append_None:
  "findIndex s ps = Inr None \<Longrightarrow> slug_lower e = Inr (toLowerCase s') \<Longrightarrow> toLowerCase s' = toLowerCase s
   \<Longrightarrow> findIndex s' (ps @ [e]) = Inr (Some (length ps))"
  by (induction ps) (auto split: sum.splits option.splits if_splits)

lemma findIndex_update_Some:
  "findIndex s ps = Inr (Some i) \<Longrightarrow> slug_lower e = Inr (toLowerCase s') \<Longrightarrow> toLowerCase s' = toLowerCase s
   \<Longrightarrow> findIndex s' (ps[i := e]) = Inr (Some i)"
proof (induction ps arbitrary: i)
  case Nil
  then show ?case by simp
next
  case (Cons p ps)
  show ?case
  proof (cases "slug_lower p")
    case (Inl e)
    with Cons.prems show ?thesis by simp
  next
    case (Inr k)
    show ?thesis
    proof (cases "k = toLowerCase s")
      case True
      with Inr Cons.prems show ?thesis by simp
    next
      case False
      with Inr Cons.prems obtain i' where i': "findIndex s ps = Inr (Some i')" "i = Suc i'"
        by (auto split: sum.splits option.splits)
      from Cons.IH[OF i'(1) Cons.prems(2,3)] Inr False i'(2) Cons.prems(3) show ?thesis
        by simp
    qed
  qed
qed


lemma sanitize_nth:
  "i < length raw \<Longrightarrow> sanitize raw ! i =
     (if raw ! i \<in> set ''abcdefghijklmnopqrstuvwxyzABCDEFGHIJKLMNOPQRSTUVWXYZ0123456789-''
      then raw ! i else CHR ''-'')"
  by (simp add: sanitize_def slug_char_def lower_letters_def upper_letters_def digits_def)

lemma sanitized_slug_JStr: "sanitized_slug (Some (JStr raw)) = Inr (sanitize raw)"
  by (simp add: sanitized_slug_def js_or_def sanitize_def)

lemma findIndex_put_entry:
  assumes "findIndex s ps = Inr idx" and "toLowerCase s' = toLowerCase s"
  shows "findIndex s' (put_entry idx (save_entry s m) ps)
           = Inr (Some (case idx of Some i \<Rightarrow> i | None \<Rightarrow> length ps))"
proof (cases idx)
  case None
  with assms findIndex_append_None[of s ps "save_entry s m" s'] show ?thesis
    by (simp add: put_entry_def slug_lower_save_entry)
next
  case (Some i)
  with assms findIndex_update_Some[of s ps i "save_entry s m" s'] show ?thesis
    by (simp add: put_entry_def slug_lower_save_entry)
qed

lemma nth_put_entry:
  assumes "findIndex s ps = Inr idx"
  shows "put_entry idx e ps ! (case idx of Some i \<Rightarrow> i | None \<Rightarrow> length ps) = e"
proof (cases idx)
  case None
  then show ?thesis by (simp add: put_entry_def)
next
  case (Some i)
  with assms findIndex_Some[of s ps i] show ?thesis by (simp add: put_entry_def)
qed

lemma load_projects_Parsed [simp]: "load_projects (Parsed (JArr ps)) = ps"
  by (simp add: load_projects_def)

lemma find_record_save:
  assumes "save b st = (Inr r, st')" and "sanitized_slug (slug b) = Inr s"
  shows "find_record s st' = Some (save_entry s (js_or (meta b) (JObj [])))"
proof -
  from assms obtain idx where idx: "findIndex s (load_projects (index st)) = Inr idx"
    and st': "index st' = Parsed (JArr (put_entry idx (save_entry s (js_or (meta b) (JObj [])))
                   (load_projects (index st))))"
    by (auto simp: save_Inr)
  from findIndex_put_entry[OF idx refl] nth_put_entry[OF idx] st' show ?thesis
    by (simp add: find_record_def)
qed

lemma pages_save:
  assumes "save b st = (Inr r, st')" and "sanitized_slug (slug b) = Inr s"
  shows "map_of (pages st') (s @ ''.html'') = Some (Some (opt_string (html b)))"
  using assms by (auto simp: save_Inr write_page_def update_conv')

text \<open>
  C6: sanitizing a slug keeps its length and replaces exactly the characters outside
  \<^verbatim>\<open>[a-zA-Z0-9-]\<close> by a hyphen; sanitizing twice is sanitizing once; and a save that
  succeeds answers with, writes the page under, and stores the record under the sanitized slug.
\<close>

theorem sanitize_slug_stored:
  "length (sanitize raw) = length raw \<and>
   (\<forall>i<length raw. sanitize raw ! i =
      (if raw ! i \<in> set ''abcdefghijklmnopqrstuvwxyzABCDEFGHIJKLMNOPQRSTUVWXYZ0123456789-''
       then raw ! i else CHR ''-'')) \<and>
   sanitize (sanitize raw) = sanitize raw \<and>
   (slug b = Some (JStr raw) \<longrightarrow> save b st = (Inr r, st') \<longrightarrow>
      r = ''projects/'' @ sanitize raw @ ''.html'' \<and>
      map_of (pages st') (sanitize raw @ ''.html'') = Some (Some (opt_string (html b))) \<and>
      (\<exists>e. find_record (sanitize raw) st' = Some e \<and> own_prop e ''slug'' = Some (JStr (sanitize raw))))"
proof -
  have "length (sanitize raw) = length raw"
    by (simp add: sanitize_def)
  moreover have "\<forall>i<length raw. sanitize raw ! i =
      (if raw ! i \<in> set ''abcdefghijklmnopqrstuvwxyzABCDEFGHIJKLMNOPQRSTUVWXYZ0123456789-''
       then raw ! i else CHR ''-'')"
    using sanitize_nth by blast
  moreover have "sanitize (sanitize raw) = sanitize raw"
    by (rule sanitize_idem)
  moreover have "r = ''projects/'' @ sanitize raw @ ''.html'' \<and>
      map_of (pages st') (sanitize raw @ ''.html'') = Some (Some (opt_string (html b))) \<and>
      (\<exists>e. find_record (sanitize raw) st' = Some e \<and> own_prop e ''slug'' = Some (JStr (sanitize raw)))"
    if b: "slug b = Some (JStr raw)" and sv: "save b st = (Inr r, st')"
  proof -
    from b have s: "sanitized_slug (slug b) = Inr (sanitize raw)"
      by (simp add: sanitized_slug_JStr)
    from sv s have "r = ''projects/'' @ sanitize raw @ ''.html''"
      by (auto simp: save_Inr)
    moreover note pages_save[OF sv s]
    moreover from find_record_save[OF sv s]
    have "\<exists>e. find_record (sanitize raw) st' = Some e \<and> own_prop e ''slug'' = Some (JStr (sanitize raw))"
      by (simp add: save_entry_def own_prop_def)
    ultimately show ?thesis by blast
  qed
  ultimately show ?thesis by blast
qed

lemma sanitize_example: "sanitize ''My Project!'' = ''My-Project-''"
  by (simp add: sanitize_def slug_char_def lower_letters_def upper_letters_def digits_def)

lemma save_example: "save example_body no_files = (Inr ''projects/My-Project-.html'', example_saved)"
  by (simp add: save_def sanitized_slug_def js_or_def sanitize_example write_page_def
      opt_string_def load_projects_def save_entry_def own_prop_def as_list_def put_entry_def
      example_body_def no_files_def example_saved_def)

theorem sanitize_slug_stored_witness:
  "slug example_body = Some (JStr ''My Project!'') \<and>
   save example_body no_files = (Inr ''projects/My-Project-.html'', example_saved) \<and>
   sanitize ''My Project!'' = ''My-Project-'' \<and>
   map_of (pages example_saved) ''My-Project-.html'' = Some (Some ''<p>x</p>'') \<and>
   (\<exists>e. find_record ''My-Project-'' example_saved = Some e \<and>
        own_prop e ''slug'' = Some (JStr ''My-Project-''))"
proof -
  have b: "slug example_body = Some (JStr ''My Project!'')"
    by (simp add: example_body_def)
  have h: "opt_string (html example_body) = ''<p>x</p>''"
    by (simp add: example_body_def opt_string_def)
  from sanitize_slug_stored[of "''My Project!''" example_body no_files
      "''projects/My-Project-.html''" example_saved] b h sanitize_example save_example
  show ?thesis by simp
qed

text \<open>
  C7: the save handler answers with the client error exactly when the sanitized slug is
  empty, the message is then \<^verbatim>\<open>Missing slug\<close>, and no file is written.
\<close>

theorem save_invalid_input:
  "((\<exists>msg. fst (save b st) = Inl (InvalidInput msg)) \<longleftrightarrow> sanitized_slug (slug b) = Inr []) \<and>
   (fst (save b st) = Inl (InvalidInput msg) \<longrightarrow> msg = ''Missing slug'' \<and> snd (save b st) = st)"
proof -
  obtain res st' where sv: "save b st = (res, st')"
    by (cases "save b st")
  have 1: "res = Inl (InvalidInput ''Missing slug'') \<and> st' = st" if "sanitized_slug (slug b) = Inr []"
    using that sv by (simp add: save_def)
  have 2: "sanitized_slug (slug b) = Inr [] \<and> m = ''Missing slug'' \<and> st' = st"
    if "res = Inl (InvalidInput m)" for m
    using that sv sanitized_slug_error[of "slug b" "InvalidInput m"]
      findIndex_error[of _ _ "InvalidInput m"]
    by (auto simp: save_Inl)
  from 1 2 sv show ?thesis by auto
qed

theorem save_invalid_input_witness:
  "sanitized_slug (slug no_slug_body) = Inr [] \<and>
   fst (save no_slug_body example_saved) = Inl (InvalidInput ''Missing slug'') \<and>
   snd (save no_slug_body example_saved) = example_saved"
proof -
  have s: "sanitized_slug (slug no_slug_body) = Inr []"
    by (simp add: no_slug_body_def sanitized_slug_def js_or_def sanitize_def)
  from save_invalid_input[of no_slug_body example_saved] s
  obtain msg where m: "fst (save no_slug_body example_saved) = Inl (InvalidInput msg)"
    by blast
  from save_invalid_input[of no_slug_body example_saved msg] m s show ?thesis
    by simp
qed








lemma length_toLowerCase [simp]: "length (toLowerCase s) = length s"
  by (simp add: toLowerCase_def)

lemma toLowerCase_Nil_iff: "toLowerCase a = toLowerCase b \<Longrightarrow> a = [] \<longleftrightarrow> b = []"
  by (metis length_toLowerCase length_0_conv)

lemma filter_update_single:
  assumes "i < length xs" and "P (xs ! i)" and "P y" and "length (filter P xs) \<le> 1"
  shows "filter P (xs[i := y]) = [y]"
proof -
  have xs: "xs = take i xs @ xs ! i # drop (Suc i) xs"
    using assms(1) by (simp add: id_take_nth_drop)
  have "length (filter P (take i xs @ xs ! i # drop (Suc i) xs)) \<le> 1"
    using assms(4) xs by simp
  with assms(2) have e: "filter P (take i xs) = []" "filter P (drop (Suc i) xs) = []"
    by simp_all
  have "xs[i := y] = take i xs @ y # drop (Suc i) xs"
    using assms(1) by (simp add: upd_conv_take_nth_drop)
  with e assms(3) show ?thesis by simp
qed

lemma matching_None:
  assumes "findIndex s ps = Inr None"
  shows "matching s ps = []"
  using findIndex_None[OF assms] by (auto simp: matching_def filter_empty_conv)

text \<open>
  C1 (as amended): when a save of a slug succeeds on an index that holds at most one
  record with that slug, compared without case as the lookup does, a second save of a
  case variant of the slug succeeds too; it replaces the record of the first save at the
  position that record has, and afterwards that record is the only one with the slug.
\<close>

theorem save_twice:
  assumes "save b1 st = (Inr r1, st1)"
    and "sanitized_slug (slug b1) = Inr s1" and "sanitized_slug (slug b2) = Inr s2"
    and "toLowerCase s2 = toLowerCase s1"
    and "length (matching s1 (load_projects (index st))) \<le> 1"
  shows "\<exists>st2 i. save b2 st1 = (Inr (''projects/'' @ s2 @ ''.html''), st2) \<and>
           i < length (load_projects (index st1)) \<and>
           findIndex s1 (load_projects (index st1)) = Inr (Some i) \<and>
           load_projects (index st1) ! i = save_entry s1 (js_or (meta b1) (JObj [])) \<and>
           load_projects (index st2) =
             (load_projects (index st1))[i := save_entry s2 (js_or (meta b2) (JObj []))] \<and>
           matching s1 (load_projects (index st2)) = [save_entry s2 (js_or (meta b2) (JObj []))]"
proof -
  let ?ps = "load_projects (index st)"
  let ?e1 = "save_entry s1 (js_or (meta b1) (JObj []))"
  let ?e2 = "save_entry s2 (js_or (meta b2) (JObj []))"
  from assms(1,2) obtain idx where idx: "findIndex s1 ?ps = Inr idx" and s1: "s1 \<noteq> []"
    and st1: "st1 = (write_page (s1 @ ''.html'') (opt_string (html b1)) st)
                \<lparr>index := Parsed (JArr (put_entry idx ?e1 ?ps))\<rparr>"
    by (auto simp: save_Inr)
  define i where "i = (case idx of Some i \<Rightarrow> i | None \<Rightarrow> length ?ps)"
  let ?ps1 = "put_entry idx ?e1 ?ps"
  have ps1: "load_projects (index st1) = ?ps1"
    by (simp add: st1)
  have f1: "findIndex s1 ?ps1 = Inr (Some i)"
    using findIndex_put_entry[OF idx refl] by (simp add: i_def)
  have f2: "findIndex s2 ?ps1 = Inr (Some i)"
    using findIndex_put_entry[OF idx assms(4)] by (simp add: i_def)
  have n1: "?ps1 ! i = ?e1"
    using nth_put_entry[OF idx] by (simp add: i_def)
  have len: "i < length ?ps1"
    using findIndex_Some[OF f1] by simp
  from assms(4) s1 have s2: "s2 \<noteq> []"
    using toLowerCase_Nil_iff by blast
  have e2: "slug_lower ?e2 = Inr (toLowerCase s1)"
    by (simp add: slug_lower_save_entry assms(4))
  have m: "matching s1 (?ps1[i := ?e2]) = [?e2]"
  proof (cases idx)
    case None
    then have "?ps1[i := ?e2] = ?ps @ [?e2]"
      by (simp add: put_entry_def i_def)
    with matching_None[of s1 ?ps] idx None e2 show ?thesis
      by (simp add: matching_def)
  next
    case (Some j)
    with idx findIndex_Some[of s1 ?ps j]
    have j: "j < length ?ps" "slug_lower (?ps ! j) = Inr (toLowerCase s1)"
      by simp_all
    from Some have "?ps1[i := ?e2] = ?ps[j := ?e2]"
      by (simp add: put_entry_def i_def)
    with filter_update_single[of j ?ps "\<lambda>p. slug_lower p = Inr (toLowerCase s1)" ?e2]
      j e2 assms(5) show ?thesis
      by (simp add: matching_def)
  qed
  let ?st2 = "(write_page (s2 @ ''.html'') (opt_string (html b2)) st1)
                \<lparr>index := Parsed (JArr (put_entry (Some i) ?e2 ?ps1))\<rparr>"
  have "save b2 st1 = (Inr (''projects/'' @ s2 @ ''.html''), ?st2)"
    using assms(3) s2 f2 ps1 by (simp add: save_Inr)
  moreover have "load_projects (index ?st2) = ?ps1[i := ?e2]"
    by (simp add: put_entry_def)
  ultimately show ?thesis
    using len f1 n1 m ps1 by auto
qed

lemma sanitize_a: "sanitize ''a'' = ''a''" "sanitize ''A'' = ''A''"
  by (simp_all add: sanitize_def slug_char_def lower_letters_def upper_letters_def digits_def)

lemma lower_a: "toLowerCase ''a'' = ''a''" "toLowerCase ''A'' = ''a''"
  by (simp_all add: toLowerCase_def translate_def lower_letters_def upper_letters_def
      upper_latin1_def lower_latin1_def)

lemma save_first_twin:
  "save first_body twin_files = (Inr ''projects/a.html'',
     \<lparr>index = Parsed (JArr [JObj [(''slug'', JStr ''a''), (''title'', JStr ''a''),
         (''category'', JStr []), (''dataCategory'', JArr []), (''description'', JStr []),
         (''tags'', JArr []), (''image'', JStr [])], JObj [(''slug'', JStr ''A'')]]),
      pages = [(''a.html'', Some [])], images = []\<rparr>)"
  by (simp add: save_def sanitized_slug_def js_or_def sanitize_a lower_a write_page_def
      opt_string_def load_projects_def save_entry_def own_prop_def as_list_def put_entry_def
      slug_lower_def read_prop_def first_body_def twin_files_def)

lemma save_second_twin:
  "save second_body
     \<lparr>index = Parsed (JArr [JObj [(''slug'', JStr ''a''), (''title'', JStr ''a''),
         (''category'', JStr []), (''dataCategory'', JArr []), (''description'', JStr []),
         (''tags'', JArr []), (''image'', JStr [])], JObj [(''slug'', JStr ''A'')]]),
      pages = [(''a.html'', Some [])], images = []\<rparr>
   = (Inr ''projects/A.html'',
     \<lparr>index = Parsed (JArr [JObj [(''slug'', JStr ''A''), (''title'', JStr ''T''),
         (''category'', JStr []), (''dataCategory'', JArr []), (''description'', JStr []),
         (''tags'', JArr []), (''image'', JStr [])], JObj [(''slug'', JStr ''A'')]]),
      pages = [(''a.html'', Some []), (''A.html'', Some [])], images = []\<rparr>)"
  by (simp add: save_def sanitized_slug_def js_or_def sanitize_a lower_a write_page_def
      opt_string_def load_projects_def save_entry_def own_prop_def as_list_def put_entry_def
      slug_lower_def read_prop_def second_body_def)

theorem save_twice_counterexample:
  "fst (save first_body twin_files) = Inr ''projects/a.html'' \<and>
   fst (save second_body (snd (save first_body twin_files))) = Inr ''projects/A.html'' \<and>
   length (matching ''a'' (load_projects (index (snd (save second_body (snd (save first_body twin_files))))))) = 2"
  by (simp add: save_first_twin save_second_twin matching_def lower_a slug_lower_def read_prop_def
      own_prop_def js_or_def)

theorem save_twice_witness:
  "save first_body no_files = (Inr ''projects/a.html'',
     \<lparr>index = Parsed (JArr [JObj [(''slug'', JStr ''a''), (''title'', JStr ''a''),
         (''category'', JStr []), (''dataCategory'', JArr []), (''description'', JStr []),
         (''tags'', JArr []), (''image'', JStr [])]]),
      pages = [(''a.html'', Some [])], images = []\<rparr>) \<and>
   toLowerCase ''A'' = toLowerCase ''a'' \<and>
   length (matching ''a'' (load_projects (index no_files))) \<le> 1 \<and>
   (\<exists>st2. save second_body \<lparr>index = Parsed (JArr [JObj [(''slug'', JStr ''a''), (''title'', JStr ''a''),
         (''category'', JStr []), (''dataCategory'', JArr []), (''description'', JStr []),
         (''tags'', JArr []), (''image'', JStr [])]]),
      pages = [(''a.html'', Some [])], images = []\<rparr> = (Inr ''projects/A.html'', st2) \<and>
      matching ''a'' (load_projects (index st2)) =
        [JObj [(''slug'', JStr ''A''), (''title'', JStr ''T''),
         (''category'', JStr []), (''dataCategory'', JArr []), (''description'', JStr []),
         (''tags'', JArr []), (''image'', JStr [])]])"
proof -
  let ?st1 = "\<lparr>index = Parsed (JArr [JObj [(''slug'', JStr ''a''), (''title'', JStr ''a''),
         (''category'', JStr []), (''dataCategory'', JArr []), (''description'', JStr []),
         (''tags'', JArr []), (''image'', JStr [])]]),
      pages = [(''a.html'', Some [])], images = []\<rparr>"
  have sv: "save first_body no_files = (Inr ''projects/a.html'', ?st1)"
    by (simp add: save_def sanitized_slug_def js_or_def sanitize_a lower_a write_page_def
      opt_string_def load_projects_def save_entry_def own_prop_def as_list_def put_entry_def
      first_body_def no_files_def)
  have s1: "sanitized_slug (slug first_body) = Inr ''a''"
    by (simp add: first_body_def sanitized_slug_JStr sanitize_a)
  have s2: "sanitized_slug (slug second_body) = Inr ''A''"
    by (simp add: second_body_def sanitized_slug_JStr sanitize_a)
  have l: "toLowerCase ''A'' = toLowerCase ''a''"
    by (simp add: lower_a)
  have m: "length (matching ''a'' (load_projects (index no_files))) \<le> 1"
    by (simp add: no_files_def load_projects_def matching_def)
  have e: "save_entry ''A'' (js_or (meta second_body) (JObj [])) =
      JObj [(''slug'', JStr ''A''), (''title'', JStr ''T''),
         (''category'', JStr []), (''dataCategory'', JArr []), (''description'', JStr []),
         (''tags'', JArr []), (''image'', JStr [])]"
    by (simp add: second_body_def save_entry_def js_or_def own_prop_def as_list_def)
  from save_twice[OF sv s1 s2 l m] sv l m e show ?thesis
    by auto
qed

section \<open>Properties of the sync handler\<close>

lemma mapE_Inr: "mapE f xs = Inr ys \<longleftrightarrow> map f xs = map Inr ys"
proof (induction xs arbitrary: ys)
  case Nil
  then show ?case by auto
next
  case (Cons x xs)
  show ?case
  proof (cases "f x")
    case (Inl e)
    then show ?thesis by (cases ys) auto
  next
    case (Inr y)
    show ?thesis
    proof (cases "mapE f xs")
      case (Inl e)
      with Cons.IH Inr show ?thesis by (cases ys) auto
    next
      case r: (Inr zs)
      with Cons.IH[of zs] Cons.IH Inr show ?thesis by (cases ys) auto
    qed
  qed
qed

lemma mapE_keyed: "keyed ps \<Longrightarrow> \<exists>keys. mapE slug_key ps = Inr keys"
proof (induction ps)
  case Nil
  then show ?case by simp
next
  case (Cons p ps)
  then show ?case by (auto simp: keyed_def)
qed


lemma slugs_of_mapE: "mapE slug_key ps = Inr keys \<Longrightarrow> slugs_of ps = keys"
proof (induction ps arbitrary: keys)
  case Nil
  then show ?case by (simp add: slugs_of_def)
next
  case (Cons p ps)
  then show ?case by (auto simp: slugs_of_def split: sum.splits)
qed

lemma slugs_of_append [simp]: "slugs_of (xs @ ys) = slugs_of xs @ slugs_of ys"
  by (simp add: slugs_of_def)

lemma slug_key_sync_entry: "slug_key (sync_entry s h) = Inr (toLowerCase s)"
  by (simp add: slug_key_def sync_entry_def read_prop_def own_prop_def js_or_def Let_def)

lemma slugs_of_sync_entry [simp]: "slugs_of [sync_entry s h] = [toLowerCase s]"
  by (simp add: slugs_of_def slug_key_sync_entry)

lemma keyed_append [simp]: "keyed (xs @ ys) \<longleftrightarrow> keyed xs \<and> keyed ys"
  by (auto simp: keyed_def)

lemma keyed_sync_entry [simp]: "keyed [sync_entry s h]"
  by (simp add: keyed_def slug_key_sync_entry)

lemma dom_new_Map:
  assumes "length keys = length ps"
  shows "dom (new_Map (zip keys ps)) = set keys"
proof -
  have "dom (new_Map (zip keys ps)) = fst ` set (zip keys ps)"
    unfolding new_Map_def dom_map_of_conv_image_fst set_rev ..
  also have "\<dots> = set (map fst (zip keys ps))"
    by (simp only: set_map)
  also have "\<dots> = set keys"
    using assms by simp
  finally show ?thesis .
qed

lemma length_mapE: "mapE f xs = Inr ys \<Longrightarrow> length ys = length xs"
  unfolding mapE_Inr by (metis length_map)

lemma sync_loop_inv:
  assumes "sync_loop st fs (ps, m, ad) = (ps', m', ad')"
    and "dom m = set (slugs_of ps)" and "keyed ps"
  shows "keyed ps' \<and> dom m' = set (slugs_of ps') \<and>
         (distinct (slugs_of ps) \<longrightarrow> distinct (slugs_of ps')) \<and>
         file_key ` set fs \<subseteq> dom m' \<and> dom m \<subseteq> dom m'"
  using assms
proof (induction fs arbitrary: ps m ad)
  case Nil
  then show ?case by simp
next
  case (Cons f fs)
  let ?s = "basename_ext f ''.html''"
  let ?e = "sync_entry ?s (read_page st f)"
  show ?case
  proof (cases "m (file_key f) = None")
    case True
    with Cons.prems(1)
    have l: "sync_loop st fs (ps @ [?e], m(file_key f \<mapsto> ?e), ad @ [?s]) = (ps', m', ad')"
      by (simp add: file_key_def Let_def)
    have d: "dom (m(file_key f \<mapsto> ?e)) = set (slugs_of (ps @ [?e]))"
      using Cons.prems(2) by (simp add: file_key_def)
    have k: "keyed (ps @ [?e])"
      using Cons.prems(3) by simp
    from True Cons.prems(2) have "file_key f \<notin> set (slugs_of ps)"
      by (metis domIff)
    then have dist: "distinct (slugs_of ps) \<longrightarrow> distinct (slugs_of (ps @ [?e]))"
      by (simp add: file_key_def)
    from Cons.IH[OF l d k] have ih: "keyed ps'" "dom m' = set (slugs_of ps')"
      "distinct (slugs_of (ps @ [?e])) \<longrightarrow> distinct (slugs_of ps')"
      "file_key ` set fs \<subseteq> dom m'" "dom (m(file_key f \<mapsto> ?e)) \<subseteq> dom m'"
      by blast+
    from ih(5) have "file_key f \<in> dom m'" and "dom m \<subseteq> dom m'"
      by auto
    with ih dist show ?thesis
      by simp
  next
    case False
    with Cons.prems(1) have l: "sync_loop st fs (ps, m, ad) = (ps', m', ad')"
      by (auto simp: file_key_def Let_def)
    from Cons.IH[OF l Cons.prems(2,3)] have ih: "keyed ps'" "dom m' = set (slugs_of ps')"
      "distinct (slugs_of ps) \<longrightarrow> distinct (slugs_of ps')"
      "file_key ` set fs \<subseteq> dom m'" "dom m \<subseteq> dom m'"
      by blast+
    from False ih(5) have "file_key f \<in> dom m'"
      by auto
    with ih show ?thesis
      by simp
  qed
qed


lemma filterE_keyed:
  "keyed ps \<Longrightarrow> filterE (has_file S) ps = Inr (filter (\<lambda>p. \<exists>k\<in>S. slug_key p = Inr k) ps)"
proof (induction ps)
  case Nil
  then show ?case by simp
next
  case (Cons p ps)
  then obtain k where k: "slug_key p = Inr k"
    by (auto simp: keyed_def)
  then have h: "has_file S p = Inr (k \<in> S)"
    by (simp add: has_file_def)
  from Cons have "filterE (has_file S) ps = Inr (filter (\<lambda>p. \<exists>k\<in>S. slug_key p = Inr k) ps)"
    by (simp add: keyed_def)
  with h k show ?case by simp
qed




lemma sync_keyed:
  assumes "keyed (load_projects (index st))"
  shows "\<exists>r. sync_projects st = (Inr r, st\<lparr>index := Parsed (JArr (projects r))\<rparr>)"
proof -
  let ?ps = "load_projects (index st)"
  from mapE_keyed[OF assms] obtain keys where keys: "mapE slug_key ?ps = Inr keys"
    by blast
  obtain ps1 m1 ad where l: "sync_loop st (html_files st) (?ps, new_Map (zip keys ?ps), []) = (ps1, m1, ad)"
    by (metis prod_cases3)
  have d: "dom (new_Map (zip keys ?ps)) = set (slugs_of ?ps)"
    using dom_new_Map[OF length_mapE[OF keys]] slugs_of_mapE[OF keys] by simp
  from sync_loop_inv[OF l d assms] have "keyed ps1"
    by simp
  from filterE_keyed[OF this] keys l show ?thesis
    by (simp add: sync_projects_def Let_def)
qed


lemma sync_orphan:
  "sync_projects orphan_files =
     (Inr \<lparr>projects = [JObj [(''slug'', JStr ''orphan''), (''title'', JStr ''Orphan Page''),
         (''category'', JStr []), (''dataCategory'', JArr []), (''description'', JStr []),
         (''tags'', JArr []), (''image'', JStr [])]],
       added = [''orphan''], removed = 1,
       message = ''Synced: 1 project(s). Added: 1; removed from list: 1.''\<rparr>, orphan_synced)"
  by code_simp














lemma sync_loop_pages:
  "pages st' = pages st \<Longrightarrow> sync_loop st' fs acc = sync_loop st fs acc"
proof (induction fs arbitrary: acc)
  case Nil
  then show ?case by simp
next
  case (Cons f fs)
  obtain ps m ad where acc: "acc = (ps, m, ad)"
    by (cases acc)
  from Cons show ?case
    unfolding acc by (simp add: read_page_def Let_def)
qed

lemma sync_fst_pages:
  assumes "pages st' = pages st" and "load_projects (index st') = load_projects (index st)"
  shows "fst (sync_projects st') = fst (sync_projects st)"
proof -
  have f: "html_files st' = html_files st"
    using assms(1) by (simp add: html_files_def)
  show ?thesis
    unfolding sync_projects_def Let_def f assms(2) sync_loop_pages[OF assms(1)]
    by (simp split: sum.splits prod.splits)
qed

lemma load_projects_not_array:
  "\<forall>ps. v \<noteq> JArr ps \<Longrightarrow> load_projects (Parsed v) = []"
  by (cases v) (simp_all add: load_projects_def)

lemma keyed_Nil: "keyed []"
  by (simp add: keyed_def)

text \<open>
  C10: when \<^verbatim>\<open>projects.json\<close> holds JSON that is not an array, a save answers as it does
  when the file cannot be parsed and, where it succeeds, leaves the same files, the index
  holding the new record only; a synchronisation succeeds with the answer and the files it
  gives when the file cannot be parsed. In both the former content is gone from the index.
\<close>

theorem non_array_index_is_empty:
  assumes "index st = Parsed v" and "\<forall>ps. v \<noteq> JArr ps"
  shows "fst (save b st) = fst (save b (st\<lparr>index := Unparsable\<rparr>)) \<and>
         (\<forall>r st'. save b st = (Inr r, st') \<longrightarrow>
            save b (st\<lparr>index := Unparsable\<rparr>) = (Inr r, st') \<and>
            (\<exists>s. sanitized_slug (slug b) = Inr s \<and>
               index st' = Parsed (JArr [save_entry s (js_or (meta b) (JObj []))]))) \<and>
         (\<exists>r st'. sync_projects st = (Inr r, st') \<and>
            sync_projects (st\<lparr>index := Unparsable\<rparr>) = (Inr r, st') \<and>
            index st' = Parsed (JArr (projects r)))"
proof -
  let ?u = "st\<lparr>index := Unparsable\<rparr>"
  have e: "load_projects (index st) = []"
    using assms load_projects_not_array by simp
  have eu: "load_projects Unparsable = []"
    by (simp add: load_projects_def)
  have w: "(write_page n t st)\<lparr>index := x\<rparr> = (write_page n t ?u)\<lparr>index := x\<rparr>" for n t x
    by (simp add: write_page_def)
  have 1: "fst (save b st) = fst (save b ?u)"
    by (simp add: save_def Let_def e eu split: sum.splits)
  have 2: "save b ?u = (Inr r, st') \<and>
      (\<exists>s. sanitized_slug (slug b) = Inr s \<and>
         index st' = Parsed (JArr [save_entry s (js_or (meta b) (JObj []))]))"
    if "save b st = (Inr r, st')" for r st'
    using that w by (auto simp: save_Inr e eu put_entry_def)
  from sync_keyed[of st] e obtain r where
    r: "sync_projects st = (Inr r, st\<lparr>index := Parsed (JArr (projects r))\<rparr>)"
    by (auto simp: keyed_Nil)
  from sync_keyed[of ?u] eu obtain r' where
    r': "sync_projects ?u = (Inr r', ?u\<lparr>index := Parsed (JArr (projects r'))\<rparr>)"
    by (auto simp: keyed_Nil)
  from sync_fst_pages[of ?u st] e eu r r' have "r' = r"
    by simp
  with r r' have 3: "\<exists>r st'. sync_projects st = (Inr r, st') \<and>
            sync_projects ?u = (Inr r, st') \<and> index st' = Parsed (JArr (projects r))"
    by simp
  from 1 2 3 show ?thesis by blast
qed

theorem non_array_index_is_empty_witness:
  "index object_index = Parsed (JObj [(''slug'', JStr ''orphan'')]) \<and>
   fst (save example_body object_index) = Inr ''projects/My-Project-.html'' \<and>
   index (snd (save example_body object_index)) =
     Parsed (JArr [JObj [(''slug'', JStr ''My-Project-''), (''title'', JStr ''T''),
         (''category'', JStr []), (''dataCategory'', JArr []), (''description'', JStr []),
         (''tags'', JArr []), (''image'', JStr [])]]) \<and>
   save example_body (object_index\<lparr>index := Unparsable\<rparr>) = save example_body object_index \<and>
   sync_projects object_index = sync_projects (object_index\<lparr>index := Unparsable\<rparr>) \<and>
   snd (sync_projects object_index) = orphan_synced"
proof -
  have i: "index object_index = Parsed (JObj [(''slug'', JStr ''orphan'')])"
    by (simp add: object_index_def)
  have n: "\<forall>ps. JObj [(''slug'', JStr ''orphan'')] \<noteq> JArr ps"
    by simp
  have sv: "fst (save example_body object_index) = Inr ''projects/My-Project-.html''"
    by code_simp
  have ix: "index (snd (save example_body object_index)) =
     Parsed (JArr [JObj [(''slug'', JStr ''My-Project-''), (''title'', JStr ''T''),
         (''category'', JStr []), (''dataCategory'', JArr []), (''description'', JStr []),
         (''tags'', JArr []), (''image'', JStr [])]])"
    by code_simp
  have sy: "snd (sync_projects object_index) = orphan_synced"
    by code_simp
  from non_array_index_is_empty[OF i n, of example_body] i sv ix sy show ?thesis
    by (cases "save example_body object_index") auto
qed

section \<open>The two applications compared, and the metadata of a page\<close>

lemma save_nested_eq:
  "save_nested b st = (map_sum id (\<lambda>p. ''TemplateEdit/'' @ p) (fst (save b st)), snd (save b st))"
  by (simp add: save_def save_nested_def Let_def split: sum.splits)

lemma upload_nested_eq: "upload_nested f st = upload f st"
  by (simp add: upload_def upload_nested_def)

text \<open>
  C9 (as amended): for an upload and for a save the two applications leave the same files
  and give the same answer, except that the path a save answers with starts with
  \<^verbatim>\<open>TemplateEdit/projects/\<close> in one and with \<^verbatim>\<open>projects/\<close> in the other; only the
  application of \<^verbatim>\<open>src/unnamed/part_000\<close> has a route for the synchronisation.
\<close>

theorem apps_agree_on_upload_and_save:
  "same_up_to_layout (app (Upload f) st) (app_nested (Upload f) st) \<and>
   same_up_to_layout (app (Save b) st) (app_nested (Save b) st) \<and>
   app Sync st = (NoRoute, st) \<and>
   app_nested Sync st = reply_of Synced (sync_projects st)"
proof -
  have "same_up_to_layout (app (Upload f) st) (app_nested (Upload f) st)"
    by (cases f) (simp_all add: same_up_to_layout_def app_def app_nested_def reply_of_def
        upload_def upload_nested_def)
  moreover have "same_up_to_layout (app (Save b) st) (app_nested (Save b) st)"
    by (cases "fst (save b st)")
      (simp_all add: same_up_to_layout_def app_def app_nested_def reply_of_def save_nested_eq)
  ultimately show ?thesis
    by (simp add: app_def app_nested_def)
qed

theorem apps_agree_counterexample:
  "\<not> same_up_to_layout (app Sync orphan_files) (app_nested Sync orphan_files)"
  by (simp add: same_up_to_layout_def app_def app_nested_def reply_of_def sync_orphan)












end
